theory Spec2Isabelle
  imports Main
begin

section \<open>JavaScript values\<close>

text \<open>
  \<open>getObject\<close> decides the shape of a schema node by reading its properties and
  testing them for truthiness, so the node is modelled as the JavaScript value the code
  receives at run time, not as the TypeScript type it is annotated with. An object is the
  list of its own enumerable string-keyed properties in the order of their creation, which
  for a parsed document is the order in which the document declares them.
\<close>

datatype js_value =
    JUndefined
  | JNull
  | JBool bool
  | JNum int
  | JStr string
  | JArr "js_value list"
  | JObj "(string \<times> js_value) list"

type_synonym js_object = "(string \<times> js_value) list"

datatype error = TypeError | ResolutionError string

text \<open>\<open>Boolean(x)\<close>, \<open>!!x\<close> and the test of \<open>if (x)\<close>, \<open>x ? a : b\<close>, \<open>x && y\<close>, \<open>x || y\<close>.\<close>

fun truthy :: "js_value \<Rightarrow> bool" where
  "truthy JUndefined = False"
| "truthy JNull = False"
| "truthy (JBool b) = b"
| "truthy (JNum n) = (n \<noteq> 0)"
| "truthy (JStr s) = (s \<noteq> [])"
| "truthy (JArr xs) = True"
| "truthy (JObj kvs) = True"

text \<open>\<open>obj.k\<close> on an object: the property's value, \<open>undefined\<close> when there is none.\<close>

definition js_get :: "js_object \<Rightarrow> string \<Rightarrow> js_value" where
  "js_get obj k = (case map_of obj k of None \<Rightarrow> JUndefined | Some v \<Rightarrow> v)"

text \<open>
  \<open>(schema as SchemaObject).readOnly\<close> on a member schema, which is any value of the
  properties map: reading a property of \<open>null\<close> or \<open>undefined\<close> throws a TypeError,
  and a boolean, number, string or array has no property of that name.
\<close>

fun js_readOnly :: "js_value \<Rightarrow> error + js_value" where
  "js_readOnly JUndefined = Inl TypeError"
| "js_readOnly JNull = Inl TypeError"
| "js_readOnly (JObj kvs) = Inr (js_get kvs ''readOnly'')"
| "js_readOnly v = Inr JUndefined"

text \<open>The decimal text of an array index, as the keys of \<open>Object.entries\<close> on an array.\<close>

fun digit_char :: "nat \<Rightarrow> char" where
  "digit_char n = char_of (48 + n)"

fun string_of_nat :: "nat \<Rightarrow> string" where
  "string_of_nat n =
     (if n < 10 then [digit_char n]
      else string_of_nat (n div 10) @ [digit_char (n mod 10)])"

declare string_of_nat.simps [simp del]

text \<open>
  The order in which JavaScript enumerates the own properties of an object: first the
  keys that are array indices (the canonical decimal text of an integer below
  \<open>2^32 - 1\<close>) in ascending numeric order, then the other keys in the order of their
  creation.
\<close>

definition digit_value :: "char \<Rightarrow> nat option" where
  "digit_value c =
     map_of [(CHR ''0'', 0), (CHR ''1'', 1), (CHR ''2'', 2), (CHR ''3'', 3), (CHR ''4'', 4),
             (CHR ''5'', 5), (CHR ''6'', 6), (CHR ''7'', 7), (CHR ''8'', 8), (CHR ''9'', 9)] c"

definition index_value :: "string \<Rightarrow> nat" where
  "index_value k =
     foldl (\<lambda>n c. 10 * n + (case digit_value c of None \<Rightarrow> 0 | Some d \<Rightarrow> d)) 0 k"

definition isArrayIndex :: "string \<Rightarrow> bool" where
  "isArrayIndex k =
     (k \<noteq> [] \<and> list_all (\<lambda>c. digit_value c \<noteq> None) k
      \<and> (k = ''0'' \<or> hd k \<noteq> CHR ''0'')
      \<and> index_value k < 2 ^ 32 - 1)"

definition ownPropertyOrder :: "(string \<times> 'a) list \<Rightarrow> (string \<times> 'a) list" where
  "ownPropertyOrder kvs =
     sort_key (\<lambda>kv. index_value (fst kv)) (filter (\<lambda>kv. isArrayIndex (fst kv)) kvs)
     @ filter (\<lambda>kv. \<not> isArrayIndex (fst kv)) kvs"

text \<open>
  \<open>Object.entries(x)\<close>: the own enumerable string-keyed properties, in that order. An
  array and a string have their indices, a boolean and a number have none, \<open>null\<close> and
  \<open>undefined\<close> throw.
\<close>

fun Object_entries :: "js_value \<Rightarrow> error + (string \<times> js_value) list" where
  "Object_entries JUndefined = Inl TypeError"
| "Object_entries JNull = Inl TypeError"
| "Object_entries (JBool b) = Inr []"
| "Object_entries (JNum n) = Inr []"
| "Object_entries (JStr s) =
     Inr (zip (map string_of_nat [0..<length s]) (map (\<lambda>c. JStr [c]) s))"
| "Object_entries (JArr xs) = Inr (zip (map string_of_nat [0..<length xs]) xs)"
| "Object_entries (JObj kvs) = Inr (ownPropertyOrder kvs)"

text \<open>
  The spread \<open>[...x, y]\<close> iterates \<open>x\<close>: an array gives its elements, a string its
  characters, and any other truthy value is not iterable (TypeError).
\<close>

fun spread :: "js_value \<Rightarrow> error + js_value list" where
  "spread (JArr xs) = Inr xs"
| "spread (JStr s) = Inr (map (\<lambda>c. JStr [c]) s)"
| "spread v = Inl TypeError"

text \<open>
  \<open>omit(obj, key)\<close> of the package \<open>lodash.omit\<close> (version 4.5.0), called with one
  top-level key on a parsed node. It collects the keys of \<open>obj\<close> with \<open>for (key in
  obj)\<close>, drops the omitted one and copies the others onto a fresh object by assignment,
  \<open>result[key] = obj[key]\<close>. The assignment of an own key \<open>__proto__\<close> runs the setter
  of \<open>Object.prototype\<close> and creates no property: a value that is an object, an array
  or \<open>null\<close> becomes the prototype of the copy, any other value is ignored. The copy is
  therefore not always a parsed value, and has a type of its own: its prototype, where
  \<open>None\<close> is \<open>Object.prototype\<close>, and its own properties in the order of their
  creation.
\<close>

record js_residual =
  res_proto :: "js_value option"
  res_own :: js_object

fun isObjectOrNull :: "js_value \<Rightarrow> bool" where
  "isObjectOrNull JNull = True"
| "isObjectOrNull (JArr xs) = True"
| "isObjectOrNull (JObj kvs) = True"
| "isObjectOrNull v = False"

definition omit :: "js_object \<Rightarrow> string \<Rightarrow> js_residual" where
  "omit obj k =
     (let copied = filter (\<lambda>kv. fst kv \<noteq> k) (ownPropertyOrder obj)
      in \<lparr> res_proto =
             (case map_of copied ''__proto__'' of
                None \<Rightarrow> None
              | Some v \<Rightarrow> if isObjectOrNull v then Some v else None),
           res_own = filter (\<lambda>kv. fst kv \<noteq> ''__proto__'') copied \<rparr>)"

text \<open>
  The \<open>items\<close> argument of \<open>combineSchemas\<close>: the value of the composition keyword as
  it is, or the array of its elements followed by the copy that \<open>omit\<close> returns.
\<close>

datatype js_items =
    ItemsAsIs js_value
  | ItemsWithResidual "js_value list" js_residual

text \<open>\<open>src/utils/is.ts\<close>\<close>

definition isReference :: "js_object \<Rightarrow> bool" where
  "isReference property = truthy (js_get property ''$ref'')"

fun isBoolean :: "js_value \<Rightarrow> bool" where
  "isBoolean (JBool b) = True"
| "isBoolean x = False"

section \<open>Resolver values and the resolution context\<close>

record gen_import =
  imp_name :: string
  imp_specKey :: "string option"

record ref_info =
  ref_name :: string
  ref_specKey :: "string option"

text \<open>
  \<open>ResolverValue\<close>. The generated schemas are only passed along by \<open>getObject\<close>, so
  their type is a parameter. \<open>rv_schema\<close> is the optional \<open>schema\<close> field.
\<close>

record 's resolver_value =
  rv_value :: string
  rv_imports :: "gen_import list"
  rv_schemas :: "'s list"
  rv_isEnum :: bool
  rv_type :: string
  rv_isRef :: bool
  rv_schema :: "js_value option"

text \<open>
  \<open>ContextSpecs\<close>, as far as \<open>getObject\<close> reads it:
  \<open>context.specs[context.target]?.components?.schemas\<close>.
\<close>

record components_object =
  schemas :: "js_object option"

record open_api_object =
  components :: "components_object option"

record context_specs =
  specs :: "(string \<times> open_api_object) list"
  target :: string

datatype separator = AllOf | OneOf | AnyOf

text \<open>
  The functions \<open>getObject\<close> imports from files that are not part of the sources at
  hand. They are parameters of the model; each may throw, except the two pure string
  transforms.
\<close>

record 's env =
  pascal :: "string \<Rightarrow> string"
  getKey :: "string \<Rightarrow> string"
  jsDoc :: "js_value \<Rightarrow> bool \<Rightarrow> error + string"
  getRefInfo :: "js_value \<Rightarrow> context_specs \<Rightarrow> error + ref_info"
  resolveObject :: "js_value \<Rightarrow> string option \<Rightarrow> context_specs \<Rightarrow> error + 's resolver_value"
  resolveValue :: "js_value \<Rightarrow> string option \<Rightarrow> context_specs \<Rightarrow> error + 's resolver_value"
  combineSchemas :: "js_items \<Rightarrow> string option \<Rightarrow> separator \<Rightarrow> context_specs \<Rightarrow> error + 's resolver_value"

section \<open>The ordered fold\<close>

text \<open>
  Modelled from the spec: \<open>asyncReduce\<close> (\<open>src/utils/async-reduce\<close>) is not among the
  sources. Section 4.5 of the specification: given an ordered sequence of items and a step
  function \<open>(accumulator, item, index, fullList) -> accumulator\<close>, it produces the final
  accumulator by applying the steps strictly in list order. A step that throws rejects
  the whole fold.
\<close>

fun asyncReduce_from ::
  "('a \<Rightarrow> 'b \<Rightarrow> nat \<Rightarrow> 'b list \<Rightarrow> error + 'a) \<Rightarrow> 'b list \<Rightarrow> nat \<Rightarrow> 'b list \<Rightarrow> 'a \<Rightarrow> error + 'a"
where
  "asyncReduce_from reducer arr index [] acc = Inr acc"
| "asyncReduce_from reducer arr index (x # xs) acc =
     (case reducer acc x index arr of
        Inl e \<Rightarrow> Inl e
      | Inr acc' \<Rightarrow> asyncReduce_from reducer arr (Suc index) xs acc')"

definition asyncReduce ::
  "'b list \<Rightarrow> ('a \<Rightarrow> 'b \<Rightarrow> nat \<Rightarrow> 'b list \<Rightarrow> error + 'a) \<Rightarrow> 'a \<Rightarrow> error + 'a"
where
  "asyncReduce array reducer initValue = asyncReduce_from reducer array 0 array initValue"

section \<open>getObject\<close>

text \<open>Lines 83 to 85: \<open>(Array.isArray(item.required) ? item.required : []).includes(key)\<close>.\<close>

definition isRequired :: "js_object \<Rightarrow> string \<Rightarrow> bool" where
  "isRequired item key =
     (case js_get item ''required'' of
        JArr xs \<Rightarrow> JStr key \<in> set xs
      | _ \<Rightarrow> False)"

text \<open>
  Lines 88 to 91:
  \<open>!!context.specs[context.target]?.components?.schemas?.[propName || '']\<close>.
\<close>

definition isNameAlreadyTaken :: "context_specs \<Rightarrow> string option \<Rightarrow> bool" where
  "isNameAlreadyTaken context propName =
     truthy
       (case map_of (specs context) (target context) of
          None \<Rightarrow> JUndefined
        | Some doc \<Rightarrow>
            (case components doc of
               None \<Rightarrow> JUndefined
             | Some c \<Rightarrow>
                 (case schemas c of
                    None \<Rightarrow> JUndefined
                  | Some s \<Rightarrow> js_get s (case propName of None \<Rightarrow> [] | Some p \<Rightarrow> p))))"

text \<open>String concatenation \<open>propName + 'Property'\<close> turns \<open>undefined\<close> into its text.\<close>

fun js_string :: "string option \<Rightarrow> string" where
  "js_string None = ''undefined''"
| "js_string (Some s) = s"

text \<open>
  Lines 86 to 95: the name hint of a member. \<open>name ? \<dots> : undefined\<close> tests the
  parent name for truthiness, so the empty string counts as no name.
\<close>

definition memberPropName :: "'s env \<Rightarrow> string option \<Rightarrow> context_specs \<Rightarrow> string \<Rightarrow> string option" where
  "memberPropName E name context key =
     (let propName =
            (case name of
               None \<Rightarrow> None
             | Some n \<Rightarrow> if n \<noteq> [] then Some (pascal E n @ pascal E key) else None)
      in if isNameAlreadyTaken context propName
         then Some (js_string propName @ ''Property'')
         else propName)"

text \<open>
  Line 103: \<open>item.readOnly || (schema as SchemaObject).readOnly\<close>. The member schema
  is read only when the owning object's flag is falsy.
\<close>

definition memberReadOnly :: "js_object \<Rightarrow> js_value \<Rightarrow> error + js_value" where
  "memberReadOnly item schema =
     (if truthy (js_get item ''readOnly'') then Inr (js_get item ''readOnly'')
      else js_readOnly schema)"

text \<open>Lines 111 to 113: the template literal of one member.\<close>

definition memberText :: "string \<Rightarrow> bool \<Rightarrow> string \<Rightarrow> bool \<Rightarrow> string \<Rightarrow> string" where
  "memberText doc isReadOnly keyText required valueText =
     [CHR 0x0A] @ ''  '' @ (if doc \<noteq> [] then doc @ ''  '' else [])
     @ (if isReadOnly then ''readonly '' else [])
     @ keyText @ (if required then [] else ''?'') @ '': '' @ valueText @ '';''"

text \<open>
  Lines 77 to 121: the reducer. The steps are in the order of the source, so that the
  error of the first step that throws is the one returned.
\<close>

definition propertyStep ::
  "'s env \<Rightarrow> js_object \<Rightarrow> string option \<Rightarrow> context_specs \<Rightarrow>
   's resolver_value \<Rightarrow> string \<times> js_value \<Rightarrow> nat \<Rightarrow> (string \<times> js_value) list \<Rightarrow>
   error + 's resolver_value"
where
  "propertyStep E item name context acc entry index arr =
     (case entry of (key, schema) \<Rightarrow>
        (case resolveObject E schema (memberPropName E name context key) context of
           Inl e \<Rightarrow> Inl e
         | Inr resolvedValue \<Rightarrow>
             (case memberReadOnly item schema of
                Inl e \<Rightarrow> Inl e
              | Inr isReadOnly \<Rightarrow>
                  (case jsDoc E schema True of
                     Inl e \<Rightarrow> Inl e
                   | Inr doc \<Rightarrow>
                       Inr (acc
                         \<lparr> rv_value :=
                             rv_value acc
                             @ (if index = 0 then ''{'' else [])
                             @ memberText doc (truthy isReadOnly) (getKey E key)
                                 (isRequired item key) (rv_value resolvedValue)
                             @ (if int (length arr) - 1 = int index then [CHR 0x0A] @ ''}'' else []),
                           rv_imports := rv_imports acc @ rv_imports resolvedValue,
                           rv_schemas := rv_schemas acc @ rv_schemas resolvedValue \<rparr>)))))"

text \<open>Lines 122 to 130: the initial accumulator.\<close>

definition initialValue :: "'s resolver_value" where
  "initialValue =
     \<lparr> rv_value = [], rv_imports = [], rv_schemas = [], rv_isEnum = False,
       rv_type = ''object'', rv_isRef = False, rv_schema = Some (JObj []) \<rparr>"

text \<open>
  Lines 43 to 45, 54 to 56 and 65 to 67, which differ in the keyword only:
  \<open>item.properties ? [...item.allOf, omit(item, 'allOf')] : item.allOf\<close>.
\<close>

definition compositionItems :: "js_object \<Rightarrow> string \<Rightarrow> error + js_items" where
  "compositionItems item keyword =
     (if truthy (js_get item ''properties'')
      then (case spread (js_get item keyword) of
              Inl e \<Rightarrow> Inl e
            | Inr xs \<Rightarrow> Inr (ItemsWithResidual xs (omit item keyword)))
      else Inr (ItemsAsIs (js_get item keyword)))"

text \<open>Line 74: \<open>item.properties && Object.entries(item.properties).length > 0\<close>.\<close>

definition hasProperties :: "js_object \<Rightarrow> bool" where
  "hasProperties item =
     (truthy (js_get item ''properties'') \<and>
      (case Object_entries (js_get item ''properties'') of
         Inl e \<Rightarrow> False
       | Inr es \<Rightarrow> 0 < length es))"

text \<open>
  Lines 20 to 168. The branches are tested in the order of the source. In the
  \<open>additionalProperties\<close> branch \<open>resolvedValue.imports || []\<close> and
  \<open>resolvedValue.schemas || []\<close> are the lists themselves, an array being truthy.
\<close>

definition getObject ::
  "'s env \<Rightarrow> js_object \<Rightarrow> string option \<Rightarrow> context_specs \<Rightarrow> error + 's resolver_value"
where
  "getObject E item name context =
     (if isReference item then
        (case getRefInfo E (js_get item ''$ref'') context of
           Inl e \<Rightarrow> Inl e
         | Inr info \<Rightarrow>
             Inr \<lparr> rv_value = ref_name info,
                   rv_imports = [\<lparr> imp_name = ref_name info, imp_specKey = ref_specKey info \<rparr>],
                   rv_schemas = [], rv_isEnum = False, rv_type = ''object'',
                   rv_isRef = True, rv_schema = None \<rparr>)
      else if truthy (js_get item ''allOf'') then
        (case compositionItems item ''allOf'' of
           Inl e \<Rightarrow> Inl e
         | Inr items \<Rightarrow> combineSchemas E items name AllOf context)
      else if truthy (js_get item ''oneOf'') then
        (case compositionItems item ''oneOf'' of
           Inl e \<Rightarrow> Inl e
         | Inr items \<Rightarrow> combineSchemas E items name OneOf context)
      else if truthy (js_get item ''anyOf'') then
        (case compositionItems item ''anyOf'' of
           Inl e \<Rightarrow> Inl e
         | Inr items \<Rightarrow> combineSchemas E items name AnyOf context)
      else if hasProperties item then
        (case Object_entries (js_get item ''properties'') of
           Inl e \<Rightarrow> Inl e
         | Inr entries \<Rightarrow>
             asyncReduce entries (propertyStep E item name context) initialValue)
      else if truthy (js_get item ''additionalProperties'') then
        (if isBoolean (js_get item ''additionalProperties'') then
           Inr \<lparr> rv_value = ''{ [key: string]: any }'', rv_imports = [], rv_schemas = [],
                 rv_isEnum = False, rv_type = ''object'', rv_isRef = False, rv_schema = None \<rparr>
         else
           (case resolveValue E (js_get item ''additionalProperties'') name context of
              Inl e \<Rightarrow> Inl e
            | Inr resolvedValue \<Rightarrow>
                Inr \<lparr> rv_value = ''{[key: string]: '' @ rv_value resolvedValue @ ''}'',
                      rv_imports = rv_imports resolvedValue,
                      rv_schemas = rv_schemas resolvedValue,
                      rv_isEnum = False, rv_type = ''object'', rv_isRef = False,
                      rv_schema = None \<rparr>))
      else
        Inr \<lparr> rv_value = (if js_get item ''type'' = JStr ''object'' then ''{}'' else ''unknown''),
              rv_imports = [], rv_schemas = [], rv_isEnum = False, rv_type = ''object'',
              rv_isRef = False, rv_schema = None \<rparr>)"

section \<open>What one property contributes\<close>

text \<open>
  The reducer without the accumulator and the braces: the text of the member declaration
  of one property, and the imports and schemas of its resolution. It exists to state the
  theorems; \<open>propertyStep_memberOf\<close> below relates it to the reducer.
\<close>

definition memberOf ::
  "'s env \<Rightarrow> js_object \<Rightarrow> string option \<Rightarrow> context_specs \<Rightarrow> string \<times> js_value \<Rightarrow>
   error + (string \<times> gen_import list \<times> 's list)"
where
  "memberOf E item name context entry =
     (case entry of (key, schema) \<Rightarrow>
        (case resolveObject E schema (memberPropName E name context key) context of
           Inl e \<Rightarrow> Inl e
         | Inr resolvedValue \<Rightarrow>
             (case memberReadOnly item schema of
                Inl e \<Rightarrow> Inl e
              | Inr isReadOnly \<Rightarrow>
                  (case jsDoc E schema True of
                     Inl e \<Rightarrow> Inl e
                   | Inr doc \<Rightarrow>
                       Inr (memberText doc (truthy isReadOnly) (getKey E key)
                              (isRequired item key) (rv_value resolvedValue),
                            rv_imports resolvedValue, rv_schemas resolvedValue)))))"

section \<open>A sample run\<close>

text \<open>
  A small target document with one top-level schema \<open>PetStatus\<close>, and simple stand-ins
  for the imported functions, on which the theorems below are instantiated.
\<close>

definition sampleContext :: context_specs where
  "sampleContext =
     \<lparr> specs = [(''petstore'',
         \<lparr> components =
             Some \<lparr> schemas = Some [(''PetStatus'', JObj [(''type'', JStr ''string'')])] \<rparr> \<rparr>)],
       target = ''petstore'' \<rparr>"

text \<open>The same, with a top-level schema whose name is the empty string.\<close>

definition emptyKeyContext :: context_specs where
  "emptyKeyContext =
     \<lparr> specs = [(''petstore'',
         \<lparr> components =
             Some \<lparr> schemas = Some [([], JObj [(''type'', JStr ''string'')])] \<rparr> \<rparr>)],
       target = ''petstore'' \<rparr>"

text \<open>
  A resolver that answers with the declared type of the member, and with the name hint
  it was given when the member is an object.
\<close>

definition sampleResolve ::
  "js_value \<Rightarrow> string option \<Rightarrow> context_specs \<Rightarrow> error + string resolver_value"
where
  "sampleResolve schema propName context =
     (case schema of
        JObj kvs \<Rightarrow>
          (case js_get kvs ''type'' of
             JStr t \<Rightarrow>
               Inr \<lparr> rv_value = (if t = ''object'' then js_string propName else t),
                     rv_imports = [],
                     rv_schemas = (if t = ''object'' then [js_string propName] else []),
                     rv_isEnum = False, rv_type = t, rv_isRef = False, rv_schema = None \<rparr>
           | _ \<Rightarrow> Inl (ResolutionError ''type''))
      | _ \<Rightarrow> Inl (ResolutionError ''schema''))"

text \<open>
  A combiner that joins the references of the items with the operator of the separator,
  and writes the copy of the node as the list of its own keys.
\<close>

definition sampleItemText :: "js_value \<Rightarrow> string" where
  "sampleItemText x =
     (case x of
        JObj kvs \<Rightarrow> (case js_get kvs ''$ref'' of JStr r \<Rightarrow> r | _ \<Rightarrow> ''{}'')
      | _ \<Rightarrow> ''unknown'')"

definition sampleCombine ::
  "js_items \<Rightarrow> string option \<Rightarrow> separator \<Rightarrow> context_specs \<Rightarrow> error + string resolver_value"
where
  "sampleCombine items name sep context =
     (let operator = (case sep of AllOf \<Rightarrow> '' & '' | _ \<Rightarrow> '' | '');
          result = (\<lambda>texts.
            Inr \<lparr> rv_value = concat (map (\<lambda>t. operator @ t) texts),
                  rv_imports = [], rv_schemas = [], rv_isEnum = False, rv_type = ''object'',
                  rv_isRef = False, rv_schema = None \<rparr>)
      in case items of
           ItemsAsIs (JArr xs) \<Rightarrow> result (map sampleItemText xs)
         | ItemsAsIs _ \<Rightarrow> Inl TypeError
         | ItemsWithResidual xs r \<Rightarrow>
             result (map sampleItemText xs
                     @ [''{'' @ concat (map (\<lambda>kv. fst kv @ '';'') (res_own r)) @ ''}'']))"

definition sampleEnv :: "string env" where
  "sampleEnv =
     \<lparr> pascal = (\<lambda>s. if s = ''pet'' then ''Pet'' else if s = ''status'' then ''Status'' else s),
       getKey = (\<lambda>k. k),
       jsDoc = (\<lambda>schema tryOneLine. Inr []),
       getRefInfo = (\<lambda>r context.
          (case r of
             JStr s \<Rightarrow> if s = ''#/components/schemas/Pet''
                       then Inr \<lparr> ref_name = ''Pet'', ref_specKey = None \<rparr>
                       else Inl (ResolutionError s)
           | _ \<Rightarrow> Inl TypeError)),
       resolveObject = sampleResolve,
       resolveValue = sampleResolve,
       combineSchemas = sampleCombine \<rparr>"

definition petItem :: js_object where
  "petItem =
     [(''type'', JStr ''object''),
      (''required'', JArr [JStr ''id'']),
      (''properties'', JObj
         [(''id'', JObj [(''type'', JStr ''number'')]),
          (''status'', JObj [(''type'', JStr ''object'')]),
          (''name'', JObj [(''type'', JStr ''string''), (''readOnly'', JBool True)])])]"

section \<open>Auxiliary facts\<close>

subsection \<open>The fold over the properties\<close>

lemma propertyStep_memberOf:
  "propertyStep E item name context acc entry index arr =
     (case memberOf E item name context entry of
        Inl e \<Rightarrow> Inl e
      | Inr m \<Rightarrow>
          Inr (acc
            \<lparr> rv_value :=
                rv_value acc @ (if index = 0 then ''{'' else []) @ fst m
                @ (if int (length arr) - 1 = int index then [CHR 0x0A] @ ''}'' else []),
              rv_imports := rv_imports acc @ fst (snd m),
              rv_schemas := rv_schemas acc @ snd (snd m) \<rparr>))"
  by (simp add: propertyStep_def memberOf_def split: prod.splits sum.splits)

lemma asyncReduce_from_members:
  "length arr = index + length xs \<Longrightarrow>
   map (memberOf E item name context) xs = map Inr ms \<Longrightarrow>
   asyncReduce_from (propertyStep E item name context) arr index xs acc =
     Inr (acc
       \<lparr> rv_value :=
           rv_value acc @ (if index = 0 \<and> xs \<noteq> [] then ''{'' else [])
           @ concat (map fst ms)
           @ (if xs \<noteq> [] then [CHR 0x0A] @ ''}'' else []),
         rv_imports := rv_imports acc @ concat (map (\<lambda>m. fst (snd m)) ms),
         rv_schemas := rv_schemas acc @ concat (map (\<lambda>m. snd (snd m)) ms) \<rparr>)"
proof (induction xs arbitrary: index acc ms)
  case Nil
  then show ?case by simp
next
  case (Cons x xs)
  from Cons.prems(2) obtain m ms' where ms: "ms = m # ms'"
    and m: "memberOf E item name context x = Inr m"
    and rest: "map (memberOf E item name context) xs = map Inr ms'"
    by (cases ms) auto
  have len: "length arr = Suc index + length xs" using Cons.prems(1) by simp
  have last_iff: "(int (length arr) - 1 = int index) = (xs = [])" using Cons.prems(1) by auto
  have empty: "xs = [] \<Longrightarrow> ms' = []" using rest by auto
  show ?case using Cons.IH [OF len rest] m ms last_iff empty
    by (cases "xs = []") (simp_all add: propertyStep_memberOf)
qed

lemma asyncReduce_from_first_failure:
  "length arr = index + length (pre @ x # post) \<Longrightarrow>
   map (memberOf E item name context) pre = map Inr ms \<Longrightarrow>
   memberOf E item name context x = Inl e \<Longrightarrow>
   asyncReduce_from (propertyStep E item name context) arr index (pre @ x # post) acc = Inl e"
proof (induction pre arbitrary: index acc ms)
  case Nil
  then show ?case by (simp add: propertyStep_memberOf)
next
  case (Cons p pre)
  from Cons.prems(2) obtain m ms' where m: "memberOf E item name context p = Inr m"
    and rest: "map (memberOf E item name context) pre = map Inr ms'"
    by (cases ms) auto
  have len: "length arr = Suc index + length (pre @ x # post)" using Cons.prems(1) by simp
  show ?case using Cons.IH [OF len rest Cons.prems(3)] m
    by (simp add: propertyStep_memberOf)
qed

subsection \<open>The order of enumeration\<close>

lemma ownPropertyOrder_length: "length (ownPropertyOrder kvs) = length kvs"
  by (simp add: ownPropertyOrder_def sum_length_filter_compl)

lemma ownPropertyOrder_set: "set (ownPropertyOrder kvs) = set kvs"
  by (auto simp: ownPropertyOrder_def)

lemma ownPropertyOrder_no_index:
  "\<forall>kv \<in> set kvs. \<not> isArrayIndex (fst kv) \<Longrightarrow> ownPropertyOrder kvs = kvs"
  by (simp add: ownPropertyOrder_def filter_empty_conv filter_id_conv)

subsection \<open>The properties branch and one step of it\<close>

lemma getObject_properties_branch:
  assumes "\<not> isReference item"
      and "\<not> truthy (js_get item ''allOf'')"
      and "\<not> truthy (js_get item ''oneOf'')"
      and "\<not> truthy (js_get item ''anyOf'')"
      and "js_get item ''properties'' = JObj kvs"
      and "kvs \<noteq> []"
  shows "getObject E item name context =
           asyncReduce_from (propertyStep E item name context)
             (ownPropertyOrder kvs) 0 (ownPropertyOrder kvs) initialValue"
proof -
  have "0 < length (ownPropertyOrder kvs)" using assms(6) by (simp add: ownPropertyOrder_length)
  then show ?thesis using assms(1-5)
    by (simp add: getObject_def hasProperties_def asyncReduce_def)
qed

lemma isRequired_iff:
  "isRequired item key = (\<exists>xs. js_get item ''required'' = JArr xs \<and> JStr key \<in> set xs)"
  by (simp add: isRequired_def split: js_value.splits)

lemma memberReadOnly_truthy:
  "memberReadOnly item schema = Inr v \<Longrightarrow>
   truthy v = (truthy (js_get item ''readOnly'')
               \<or> (\<exists>kvs. schema = JObj kvs \<and> truthy (js_get kvs ''readOnly'')))"
  by (cases schema) (auto simp: memberReadOnly_def split: if_splits)

lemma memberReadOnly_returns:
  "truthy (js_get item ''readOnly'') \<or> (schema \<noteq> JNull \<and> schema \<noteq> JUndefined) \<Longrightarrow>
   memberReadOnly item schema = Inr (projr (memberReadOnly item schema))"
  by (cases schema) (auto simp: memberReadOnly_def)

lemma getObject_properties_closed_form:
  assumes "\<not> isReference item"
      and "\<not> truthy (js_get item ''allOf'')"
      and "\<not> truthy (js_get item ''oneOf'')"
      and "\<not> truthy (js_get item ''anyOf'')"
      and "js_get item ''properties'' = JObj kvs"
      and "kvs \<noteq> []"
      and members: "\<forall>(key, schema) \<in> set kvs.
             resolveObject E schema (memberPropName E name context key) context
               = Inr (resolved key schema)
             \<and> memberReadOnly item schema = Inr (flag schema)
             \<and> jsDoc E schema True = Inr (doc schema)"
  shows "getObject E item name context =
           Inr \<lparr> rv_value =
                   ''{''
                   @ concat (map (\<lambda>(key, schema).
                        memberText (doc schema) (truthy (flag schema)) (getKey E key)
                          (isRequired item key) (rv_value (resolved key schema)))
                      (ownPropertyOrder kvs))
                   @ [CHR 0x0A] @ ''}'',
                 rv_imports =
                   concat (map (\<lambda>(key, schema). rv_imports (resolved key schema))
                     (ownPropertyOrder kvs)),
                 rv_schemas =
                   concat (map (\<lambda>(key, schema). rv_schemas (resolved key schema))
                     (ownPropertyOrder kvs)),
                 rv_isEnum = False, rv_type = ''object'', rv_isRef = False,
                 rv_schema = Some (JObj []) \<rparr>"
proof -
  let ?props = "ownPropertyOrder kvs"
  let ?m = "\<lambda>(key, schema).
              (memberText (doc schema) (truthy (flag schema)) (getKey E key)
                 (isRequired item key) (rv_value (resolved key schema)),
               rv_imports (resolved key schema), rv_schemas (resolved key schema))"
  have each: "memberOf E item name context entry = Inr (?m entry)" if "entry \<in> set ?props" for entry
  proof -
    obtain key schema where e: "entry = (key, schema)" by (cases entry)
    from that have "(key, schema) \<in> set kvs" by (simp add: e ownPropertyOrder_set)
    with members have
      "resolveObject E schema (memberPropName E name context key) context
         = Inr (resolved key schema)"
      "memberReadOnly item schema = Inr (flag schema)"
      "jsDoc E schema True = Inr (doc schema)"
      by auto
    then show ?thesis by (simp add: e memberOf_def)
  qed
  then have all: "map (memberOf E item name context) ?props = map Inr (map ?m ?props)"
    by simp
  have nonempty: "?props \<noteq> []"
    using assms(6) ownPropertyOrder_length [of kvs] by auto
  have branch: "getObject E item name context =
      asyncReduce_from (propertyStep E item name context) ?props 0 ?props initialValue"
    using assms(1-6) by (rule getObject_properties_branch)
  show ?thesis
    using asyncReduce_from_members
            [of ?props 0 ?props E item name "context" "map ?m ?props" initialValue] all nonempty
    by (simp add: branch initialValue_def comp_def case_prod_unfold)
qed

subsection \<open>The copy made by omit, and the composition branches\<close>












subsection \<open>Two environments that answer alike\<close>

lemma asyncReduce_from_cong:
  "(\<And>x a i. x \<in> set xs \<Longrightarrow> f a x i arr = g a x i arr) \<Longrightarrow>
   asyncReduce_from f arr index xs acc = asyncReduce_from g arr index xs acc"
  by (induction xs arbitrary: index acc) (simp_all split: sum.splits)

lemma memberPropName_cong:
  "pascal E1 = pascal E2 \<Longrightarrow> memberPropName E1 name context key = memberPropName E2 name context key"
  by (cases name) (simp_all add: memberPropName_def)

lemma propertyStep_cong:
  assumes "pascal E1 = pascal E2" and "getKey E1 = getKey E2"
      and "resolveObject E1 schema (memberPropName E1 name context key) context
             = resolveObject E2 schema (memberPropName E1 name context key) context"
      and "jsDoc E1 schema True = jsDoc E2 schema True"
  shows "propertyStep E1 item name context acc (key, schema) index arr
           = propertyStep E2 item name context acc (key, schema) index arr"
  using assms memberPropName_cong [OF assms(1), of name "context" key]
  by (simp add: propertyStep_def split: sum.splits)

subsection \<open>The name hint of a member\<close>

lemma isNameAlreadyTaken_iff:
  "isNameAlreadyTaken context propName =
     (\<exists>doc c s. map_of (specs context) (target context) = Some doc
        \<and> components doc = Some c \<and> schemas c = Some s
        \<and> truthy (js_get s (case propName of None \<Rightarrow> [] | Some p \<Rightarrow> p)))"
  by (auto simp: isNameAlreadyTaken_def split: option.splits)

lemma memberPropName_with_parent_name:
  assumes "name = Some n" and "n \<noteq> []"
  shows "memberPropName E name context key =
           Some (if isNameAlreadyTaken context (Some (pascal E n @ pascal E key))
                 then pascal E n @ pascal E key @ ''Property''
                 else pascal E n @ pascal E key)"
  using assms by (simp add: memberPropName_def)

lemma memberPropName_without_parent_name:
  assumes "name = None \<or> name = Some []"
  shows "memberPropName E name context key =
           (if isNameAlreadyTaken context None then Some ''undefinedProperty'' else None)"
  using assms by (auto simp: memberPropName_def)

subsection \<open>Unfolding the sample run\<close>

lemmas order_defs = ownPropertyOrder_def isArrayIndex_def index_value_def digit_value_def

lemmas sample_defs =
  memberPropName_def isNameAlreadyTaken_def sampleEnv_def sampleContext_def sampleResolve_def
  sampleCombine_def sampleItemText_def memberText_def isRequired_def petItem_def memberReadOnly_def js_get_def
  propertyStep_def initialValue_def

section \<open>The properties branch: order of the members\<close>

text \<open>
  C1, as amended. For an inline object schema (no \<open>$ref\<close>, no composition keyword)
  whose properties map is non-empty, the body text of \<open>getObject\<close> is the opening brace,
  then the member declarations of the properties in the order in which
  \<open>Object.entries\<close> enumerates the map, then the closing brace; imports and schemas are
  concatenated in the same order. That is the first conjunct, where \<open>ms\<close> lists what
  each property contributes, position by position. The brace is opened by the step of
  index 0 and closed by the step of the last index (\<open>propertyStep_memberOf\<close>). When a
  member fails to resolve, the fold stops at the first such member in that order (second
  conjunct). The order of enumeration is the declared order when no key is an array
  index (third conjunct). In the model of the fold a step starts when the one before it
  has returned, so that no completion order exists on which the result could depend.
\<close>

theorem getObject_members_in_enumeration_order:
  assumes "\<not> isReference item"
      and "\<not> truthy (js_get item ''allOf'')"
      and "\<not> truthy (js_get item ''oneOf'')"
      and "\<not> truthy (js_get item ''anyOf'')"
      and "js_get item ''properties'' = JObj kvs"
      and "kvs \<noteq> []"
  shows "(map (memberOf E item name context) (ownPropertyOrder kvs) = map Inr ms \<longrightarrow>
            getObject E item name context =
              Inr \<lparr> rv_value = ''{'' @ concat (map fst ms) @ [CHR 0x0A] @ ''}'',
                    rv_imports = concat (map (\<lambda>m. fst (snd m)) ms),
                    rv_schemas = concat (map (\<lambda>m. snd (snd m)) ms),
                    rv_isEnum = False, rv_type = ''object'', rv_isRef = False,
                    rv_schema = Some (JObj []) \<rparr>)
       \<and> (ownPropertyOrder kvs = pre @ x # post
            \<and> map (memberOf E item name context) pre = map Inr ms
            \<and> memberOf E item name context x = Inl e \<longrightarrow>
            getObject E item name context = Inl e)
       \<and> ((\<forall>kv \<in> set kvs. \<not> isArrayIndex (fst kv)) \<longrightarrow> ownPropertyOrder kvs = kvs)"
proof -
  let ?props = "ownPropertyOrder kvs"
  have branch: "getObject E item name context =
      asyncReduce_from (propertyStep E item name context) ?props 0 ?props initialValue"
    using assms by (rule getObject_properties_branch)
  have nonempty: "?props \<noteq> []"
    using assms(6) ownPropertyOrder_length [of kvs] by auto
  have ok: "getObject E item name context =
              Inr \<lparr> rv_value = ''{'' @ concat (map fst ms) @ [CHR 0x0A] @ ''}'',
                    rv_imports = concat (map (\<lambda>m. fst (snd m)) ms),
                    rv_schemas = concat (map (\<lambda>m. snd (snd m)) ms),
                    rv_isEnum = False, rv_type = ''object'', rv_isRef = False,
                    rv_schema = Some (JObj []) \<rparr>"
    if "map (memberOf E item name context) ?props = map Inr ms"
    using asyncReduce_from_members [of ?props 0 ?props E item name "context" ms initialValue]
      that nonempty
    by (simp add: branch initialValue_def)
  have bad: "getObject E item name context = Inl e"
    if "?props = pre @ x # post" "map (memberOf E item name context) pre = map Inr ms"
       "memberOf E item name context x = Inl e"
    using asyncReduce_from_first_failure
            [of ?props 0 pre x post E item name "context" ms e initialValue] that
    by (simp add: branch)
  have plain: "?props = kvs" if "\<forall>kv \<in> set kvs. \<not> isArrayIndex (fst kv)"
    using that by (rule ownPropertyOrder_no_index)
  show ?thesis using ok bad plain by blast
qed

theorem getObject_members_in_enumeration_order_witness:
  "\<not> isReference petItem
   \<and> \<not> truthy (js_get petItem ''allOf'')
   \<and> \<not> truthy (js_get petItem ''oneOf'')
   \<and> \<not> truthy (js_get petItem ''anyOf'')
   \<and> js_get petItem ''properties'' =
       JObj [(''id'', JObj [(''type'', JStr ''number'')]),
             (''status'', JObj [(''type'', JStr ''object'')]),
             (''name'', JObj [(''type'', JStr ''string''), (''readOnly'', JBool True)])]
   \<and> getObject sampleEnv petItem (Some ''pet'') sampleContext =
       Inr \<lparr> rv_value =
               ''{'' @ [CHR 0x0A] @ ''  id: number;''
                     @ [CHR 0x0A] @ ''  status?: PetStatusProperty;''
                     @ [CHR 0x0A] @ ''  readonly name?: string;''
                     @ [CHR 0x0A] @ ''}'',
             rv_imports = [], rv_schemas = [''PetStatusProperty''],
             rv_isEnum = False, rv_type = ''object'', rv_isRef = False,
             rv_schema = Some (JObj []) \<rparr>
   \<and> getObject sampleEnv
         [(''properties'', JObj [(''id'', JObj [(''type'', JStr ''number'')]),
                                (''broken'', JNull),
                                (''name'', JObj [])])]
         None sampleContext = Inl (ResolutionError ''schema'')"
proof -
  let ?props = "[(''id'', JObj [(''type'', JStr ''number'')]),
             (''status'', JObj [(''type'', JStr ''object'')]),
             (''name'', JObj [(''type'', JStr ''string''), (''readOnly'', JBool True)])]"
  let ?ms = "[([CHR 0x0A] @ ''  id: number;'', [], []),
              ([CHR 0x0A] @ ''  status?: PetStatusProperty;'', [], [''PetStatusProperty'']),
              ([CHR 0x0A] @ ''  readonly name?: string;'', [], [])]"
  have h1: "\<not> isReference petItem" by (simp add: isReference_def petItem_def js_get_def)
  have h2: "\<not> truthy (js_get petItem ''allOf'')" by (simp add: petItem_def js_get_def)
  have h3: "\<not> truthy (js_get petItem ''oneOf'')" by (simp add: petItem_def js_get_def)
  have h4: "\<not> truthy (js_get petItem ''anyOf'')" by (simp add: petItem_def js_get_def)
  have h5: "js_get petItem ''properties'' = JObj ?props" by (simp add: petItem_def js_get_def)
  have h6: "?props \<noteq> []" by simp
  have o: "ownPropertyOrder ?props = ?props" by (simp add: order_defs)
  have m: "map (memberOf sampleEnv petItem (Some ''pet'') sampleContext) ?props = map Inr ?ms"
    by (simp add: memberOf_def sample_defs)
  have ok: "getObject sampleEnv petItem (Some ''pet'') sampleContext =
       Inr \<lparr> rv_value =
               ''{'' @ [CHR 0x0A] @ ''  id: number;''
                     @ [CHR 0x0A] @ ''  status?: PetStatusProperty;''
                     @ [CHR 0x0A] @ ''  readonly name?: string;''
                     @ [CHR 0x0A] @ ''}'',
             rv_imports = [], rv_schemas = [''PetStatusProperty''],
             rv_isEnum = False, rv_type = ''object'', rv_isRef = False,
             rv_schema = Some (JObj []) \<rparr>"
    using getObject_members_in_enumeration_order
            [OF h1 h2 h3 h4 h5 h6, of sampleEnv "Some ''pet''" sampleContext ?ms] m
    unfolding o by simp
  let ?pre = "[(''id'', JObj [(''type'', JStr ''number'')])]"
  let ?post = "[(''name'', JObj [])]"
  let ?bad = "[(''properties'', JObj (?pre @ (''broken'', JNull) # ?post))]"
  have b1: "\<not> isReference ?bad" by (simp add: isReference_def js_get_def)
  have b2: "\<not> truthy (js_get ?bad ''allOf'')" by (simp add: js_get_def)
  have b3: "\<not> truthy (js_get ?bad ''oneOf'')" by (simp add: js_get_def)
  have b4: "\<not> truthy (js_get ?bad ''anyOf'')" by (simp add: js_get_def)
  have b5: "js_get ?bad ''properties'' = JObj (?pre @ (''broken'', JNull) # ?post)"
    by (simp add: js_get_def)
  have b6: "?pre @ (''broken'', JNull) # ?post \<noteq> []" by simp
  have bo: "ownPropertyOrder (?pre @ (''broken'', JNull) # ?post)
              = ?pre @ (''broken'', JNull) # ?post"
    by (simp add: order_defs)
  have bm: "map (memberOf sampleEnv ?bad None sampleContext) ?pre
              = map Inr [([CHR 0x0A] @ ''  id?: number;'', [], [])]"
    by (simp add: memberOf_def sample_defs)
  have bx: "memberOf sampleEnv ?bad None sampleContext (''broken'', JNull)
              = Inl (ResolutionError ''schema'')"
    by (simp add: memberOf_def sampleEnv_def sampleResolve_def)
  have bad: "getObject sampleEnv ?bad None sampleContext = Inl (ResolutionError ''schema'')"
    using getObject_members_in_enumeration_order
            [OF b1 b2 b3 b4 b5 b6, of sampleEnv None sampleContext
               "[([CHR 0x0A] @ ''  id?: number;'', [], [])]"
               ?pre "(''broken'', JNull)" ?post "ResolutionError ''schema''"] bm bx
    unfolding bo by simp
  show ?thesis using h1 h2 h3 h4 h5 ok bad by simp
qed

text \<open>
  C1 as stated fails when a key is an array index: \<open>b\<close> is declared before \<open>1\<close>, and
  the member of \<open>1\<close> is emitted first, since \<open>Object.entries\<close> yields it first.
\<close>

theorem declared_order_counterexample:
  "\<not> isReference
       [(''properties'', JObj [(''b'', JObj [(''type'', JStr ''string'')]),
                              (''1'', JObj [(''type'', JStr ''number'')])])]
   \<and> js_get
       [(''properties'', JObj [(''b'', JObj [(''type'', JStr ''string'')]),
                              (''1'', JObj [(''type'', JStr ''number'')])])]
       ''properties''
     = JObj [(''b'', JObj [(''type'', JStr ''string'')]),
             (''1'', JObj [(''type'', JStr ''number'')])]
   \<and> Object_entries
       (JObj [(''b'', JObj [(''type'', JStr ''string'')]),
              (''1'', JObj [(''type'', JStr ''number'')])])
     = Inr [(''1'', JObj [(''type'', JStr ''number'')]),
            (''b'', JObj [(''type'', JStr ''string'')])]
   \<and> getObject sampleEnv
       [(''properties'', JObj [(''b'', JObj [(''type'', JStr ''string'')]),
                              (''1'', JObj [(''type'', JStr ''number'')])])]
       None sampleContext
     = Inr \<lparr> rv_value =
               ''{'' @ [CHR 0x0A] @ ''  1?: number;''
                     @ [CHR 0x0A] @ ''  b?: string;''
                     @ [CHR 0x0A] @ ''}'',
             rv_imports = [], rv_schemas = [],
             rv_isEnum = False, rv_type = ''object'', rv_isRef = False,
             rv_schema = Some (JObj []) \<rparr>"
  by (simp add: getObject_def isReference_def hasProperties_def asyncReduce_def order_defs
        sample_defs)

section \<open>The reference branch\<close>

text \<open>
  C2. A node whose \<open>$ref\<close> is truthy is resolved from the reference alone: the result is
  what \<open>getRefInfo\<close> returns for the pointer, as value and as the single import, with no
  schemas and \<open>isRef\<close> set, and the error of \<open>getRefInfo\<close> when it throws. No other
  key of the node is read: any node with the same \<open>$ref\<close>, under any name hint and with
  any other helper functions, resolves to the same result.
\<close>

theorem reference_short_circuit:
  assumes "isReference item"
  shows "getObject E item name context =
           (case getRefInfo E (js_get item ''$ref'') context of
              Inl e \<Rightarrow> Inl e
            | Inr info \<Rightarrow>
                Inr \<lparr> rv_value = ref_name info,
                      rv_imports = [\<lparr> imp_name = ref_name info, imp_specKey = ref_specKey info \<rparr>],
                      rv_schemas = [], rv_isEnum = False, rv_type = ''object'',
                      rv_isRef = True, rv_schema = None \<rparr>)
       \<and> (\<forall>item' name' E'.
             js_get item' ''$ref'' = js_get item ''$ref'' \<and> getRefInfo E' = getRefInfo E \<longrightarrow>
             getObject E' item' name' context = getObject E item name context)"
  using assms by (simp add: getObject_def isReference_def)

theorem reference_short_circuit_witness:
  "isReference [(''$ref'', JStr ''#/components/schemas/Pet''),
                (''properties'', JObj [(''id'', JObj [(''type'', JStr ''number'')])]),
                (''allOf'', JArr [])]
   \<and> getObject sampleEnv
         [(''$ref'', JStr ''#/components/schemas/Pet''),
          (''properties'', JObj [(''id'', JObj [(''type'', JStr ''number'')])]),
          (''allOf'', JArr [])]
         (Some ''pet'') sampleContext
       = Inr \<lparr> rv_value = ''Pet'',
               rv_imports = [\<lparr> imp_name = ''Pet'', imp_specKey = None \<rparr>],
               rv_schemas = [], rv_isEnum = False, rv_type = ''object'',
               rv_isRef = True, rv_schema = None \<rparr>
   \<and> getObject sampleEnv [(''$ref'', JStr ''#/components/schemas/Pet'')] None sampleContext
       = getObject sampleEnv
           [(''$ref'', JStr ''#/components/schemas/Pet''),
            (''properties'', JObj [(''id'', JObj [(''type'', JStr ''number'')])]),
            (''allOf'', JArr [])]
           (Some ''pet'') sampleContext"
proof -
  let ?item = "[(''$ref'', JStr ''#/components/schemas/Pet''),
                (''properties'', JObj [(''id'', JObj [(''type'', JStr ''number'')])]),
                (''allOf'', JArr [])]"
  have h: "isReference ?item" by (simp add: isReference_def js_get_def)
  note t = reference_short_circuit [OF h, of sampleEnv "Some ''pet''" sampleContext]
  from t have v: "getObject sampleEnv ?item (Some ''pet'') sampleContext
       = Inr \<lparr> rv_value = ''Pet'',
               rv_imports = [\<lparr> imp_name = ''Pet'', imp_specKey = None \<rparr>],
               rv_schemas = [], rv_isEnum = False, rv_type = ''object'',
               rv_isRef = True, rv_schema = None \<rparr>"
    by (simp add: sampleEnv_def js_get_def)
  have same: "js_get [(''$ref'', JStr ''#/components/schemas/Pet'')] ''$ref'' = js_get ?item ''$ref''"
    by (simp add: js_get_def)
  from t same have s: "getObject sampleEnv [(''$ref'', JStr ''#/components/schemas/Pet'')] None sampleContext
       = getObject sampleEnv ?item (Some ''pet'') sampleContext"
    by blast
  from h v s show ?thesis by blast
qed

section \<open>The composition branches\<close>







section \<open>The properties branch: name hints\<close>

text \<open>
  C4. With a non-empty parent name the hint is \<open>pascal(name) + pascal(key)\<close>, with
  \<open>Property\<close> appended exactly when the target document holds a schema under that
  name (\<open>memberPropName_with_parent_name\<close>), as the claim says. Without a parent name
  the candidate is \<open>undefined\<close>, and the collision test looks up the empty string
  instead (\<open>propName || ''\<close>). When the target document has a schema under the empty
  name the suffix is appended to \<open>undefined\<close>: the member is resolved with the name
  hint \<open>undefinedProperty\<close>, where the claim says that no hint is passed.
\<close>

theorem name_hint_without_parent_name:
  "memberPropName sampleEnv None emptyKeyContext ''status'' = Some ''undefinedProperty''
   \<and> getObject sampleEnv
        [(''type'', JStr ''object''),
         (''properties'', JObj [(''status'', JObj [(''type'', JStr ''object'')])])]
        None emptyKeyContext
       = Inr \<lparr> rv_value = ''{'' @ [CHR 0x0A] @ ''  status?: undefinedProperty;'' @ [CHR 0x0A] @ ''}'',
               rv_imports = [], rv_schemas = [''undefinedProperty''], rv_isEnum = False,
               rv_type = ''object'', rv_isRef = False, rv_schema = Some (JObj []) \<rparr>"
  by (simp add: getObject_def isReference_def hasProperties_def js_get_def asyncReduce_def
        order_defs
        propertyStep_def memberPropName_def isNameAlreadyTaken_def emptyKeyContext_def
        sampleEnv_def sampleResolve_def memberReadOnly_def memberText_def isRequired_def
        initialValue_def)

section \<open>The additionalProperties branch and the fallback\<close>

text \<open>
  C5, as amended. For a node with no reference, no composition and no non-empty
  properties whose \<open>additionalProperties\<close> is truthy: when it is the boolean \<open>true\<close>
  the result is the open record \<open>{ [key: string]: any }\<close> with no imports and no
  schemas; otherwise the value schema is resolved and the result is
  \<open>{[key: string]: <value>}\<close> with the imports and schemas of that resolution (or its
  error).
\<close>

theorem additionalProperties_truthy_record:
  assumes "\<not> isReference item"
      and "\<not> truthy (js_get item ''allOf'')"
      and "\<not> truthy (js_get item ''oneOf'')"
      and "\<not> truthy (js_get item ''anyOf'')"
      and "\<not> hasProperties item"
      and "truthy (js_get item ''additionalProperties'')"
  shows "getObject E item name context =
           (if js_get item ''additionalProperties'' = JBool True then
              Inr \<lparr> rv_value = ''{ [key: string]: any }'', rv_imports = [], rv_schemas = [],
                    rv_isEnum = False, rv_type = ''object'', rv_isRef = False, rv_schema = None \<rparr>
            else
              (case resolveValue E (js_get item ''additionalProperties'') name context of
                 Inl e \<Rightarrow> Inl e
               | Inr resolvedValue \<Rightarrow>
                   Inr \<lparr> rv_value = ''{[key: string]: '' @ rv_value resolvedValue @ ''}'',
                         rv_imports = rv_imports resolvedValue,
                         rv_schemas = rv_schemas resolvedValue,
                         rv_isEnum = False, rv_type = ''object'', rv_isRef = False,
                         rv_schema = None \<rparr>))"
proof (cases "js_get item ''additionalProperties''")
  case (JBool b)
  then show ?thesis using assms by (simp add: getObject_def)
qed (use assms in \<open>simp_all add: getObject_def\<close>)

theorem additionalProperties_truthy_record_witness:
  "truthy (js_get [(''type'', JStr ''object''), (''additionalProperties'', JBool True)]
      ''additionalProperties'')
   \<and> getObject sampleEnv [(''type'', JStr ''object''), (''additionalProperties'', JBool True)]
        None sampleContext
       = Inr \<lparr> rv_value = ''{ [key: string]: any }'', rv_imports = [], rv_schemas = [],
               rv_isEnum = False, rv_type = ''object'', rv_isRef = False, rv_schema = None \<rparr>
   \<and> truthy (js_get [(''properties'', JObj []),
                     (''additionalProperties'', JObj [(''type'', JStr ''string'')])]
      ''additionalProperties'')
   \<and> getObject sampleEnv
        [(''properties'', JObj []),
         (''additionalProperties'', JObj [(''type'', JStr ''string'')])]
        None sampleContext
       = Inr \<lparr> rv_value = ''{[key: string]: string}'', rv_imports = [], rv_schemas = [],
               rv_isEnum = False, rv_type = ''object'', rv_isRef = False, rv_schema = None \<rparr>"
proof -
  let ?a = "[(''type'', JStr ''object''), (''additionalProperties'', JBool True)]"
  let ?b = "[(''properties'', JObj []),
             (''additionalProperties'', JObj [(''type'', JStr ''string'')])]"
  have a1: "\<not> isReference ?a" by (simp add: isReference_def js_get_def)
  have a2: "\<not> truthy (js_get ?a ''allOf'')" by (simp add: js_get_def)
  have a3: "\<not> truthy (js_get ?a ''oneOf'')" by (simp add: js_get_def)
  have a4: "\<not> truthy (js_get ?a ''anyOf'')" by (simp add: js_get_def)
  have a5: "\<not> hasProperties ?a" by (simp add: hasProperties_def js_get_def order_defs)
  have a6: "truthy (js_get ?a ''additionalProperties'')" by (simp add: js_get_def)
  from additionalProperties_truthy_record [OF a1 a2 a3 a4 a5 a6, of sampleEnv None sampleContext]
  have va: "getObject sampleEnv ?a None sampleContext
       = Inr \<lparr> rv_value = ''{ [key: string]: any }'', rv_imports = [], rv_schemas = [],
               rv_isEnum = False, rv_type = ''object'', rv_isRef = False, rv_schema = None \<rparr>"
    by (simp add: js_get_def)
  have b1: "\<not> isReference ?b" by (simp add: isReference_def js_get_def)
  have b2: "\<not> truthy (js_get ?b ''allOf'')" by (simp add: js_get_def)
  have b3: "\<not> truthy (js_get ?b ''oneOf'')" by (simp add: js_get_def)
  have b4: "\<not> truthy (js_get ?b ''anyOf'')" by (simp add: js_get_def)
  have b5: "\<not> hasProperties ?b" by (simp add: hasProperties_def js_get_def order_defs)
  have b6: "truthy (js_get ?b ''additionalProperties'')" by (simp add: js_get_def)
  from additionalProperties_truthy_record [OF b1 b2 b3 b4 b5 b6, of sampleEnv None sampleContext]
  have vb: "getObject sampleEnv ?b None sampleContext
       = Inr \<lparr> rv_value = ''{[key: string]: string}'', rv_imports = [], rv_schemas = [],
               rv_isEnum = False, rv_type = ''object'', rv_isRef = False, rv_schema = None \<rparr>"
    by (simp add: js_get_def sampleEnv_def sampleResolve_def)
  from a6 va b6 vb show ?thesis by blast
qed

text \<open>
  C5 as stated fails when \<open>additionalProperties\<close> is present and is the boolean
  \<open>false\<close>: line 134 tests it for truthiness, so the node falls through to the fallback.
\<close>

theorem additionalProperties_false_counterexample:
  "\<not> isReference [(''type'', JStr ''object''), (''additionalProperties'', JBool False)]
   \<and> \<not> truthy (js_get [(''type'', JStr ''object''), (''additionalProperties'', JBool False)] ''allOf'')
   \<and> \<not> truthy (js_get [(''type'', JStr ''object''), (''additionalProperties'', JBool False)] ''oneOf'')
   \<and> \<not> truthy (js_get [(''type'', JStr ''object''), (''additionalProperties'', JBool False)] ''anyOf'')
   \<and> \<not> hasProperties [(''type'', JStr ''object''), (''additionalProperties'', JBool False)]
   \<and> map_of [(''type'', JStr ''object''), (''additionalProperties'', JBool False)]
        ''additionalProperties'' = Some (JBool False)
   \<and> isBoolean (js_get [(''type'', JStr ''object''), (''additionalProperties'', JBool False)]
        ''additionalProperties'')
   \<and> getObject sampleEnv [(''type'', JStr ''object''), (''additionalProperties'', JBool False)]
        None sampleContext
       = Inr \<lparr> rv_value = ''{}'', rv_imports = [], rv_schemas = [], rv_isEnum = False,
               rv_type = ''object'', rv_isRef = False, rv_schema = None \<rparr>
   \<and> getObject sampleEnv [(''type'', JStr ''object''), (''additionalProperties'', JBool False)]
        None sampleContext
       \<noteq> Inr \<lparr> rv_value = ''{ [key: string]: any }'', rv_imports = [], rv_schemas = [],
               rv_isEnum = False, rv_type = ''object'', rv_isRef = False, rv_schema = None \<rparr>"
  by (simp add: getObject_def isReference_def hasProperties_def js_get_def order_defs)

text \<open>
  C6. A node that matches no shape (no truthy \<open>$ref\<close>, \<open>allOf\<close>, \<open>oneOf\<close>,
  \<open>anyOf\<close> or \<open>additionalProperties\<close>, and no non-empty properties) never fails: the
  result is \<open>{}\<close> when its type is \<open>object\<close> and \<open>unknown\<close> otherwise, with no
  imports and no schemas.
\<close>

theorem fallback_never_fails:
  assumes "\<not> isReference item"
      and "\<not> truthy (js_get item ''allOf'')"
      and "\<not> truthy (js_get item ''oneOf'')"
      and "\<not> truthy (js_get item ''anyOf'')"
      and "\<not> hasProperties item"
      and "\<not> truthy (js_get item ''additionalProperties'')"
  shows "getObject E item name context =
           Inr \<lparr> rv_value = (if js_get item ''type'' = JStr ''object'' then ''{}'' else ''unknown''),
                 rv_imports = [], rv_schemas = [], rv_isEnum = False, rv_type = ''object'',
                 rv_isRef = False, rv_schema = None \<rparr>"
  using assms by (simp add: getObject_def)

theorem fallback_never_fails_witness:
  "\<not> hasProperties [(''type'', JStr ''object''), (''properties'', JObj [])]
   \<and> getObject sampleEnv [(''type'', JStr ''object''), (''properties'', JObj [])]
        None sampleContext
       = Inr \<lparr> rv_value = ''{}'', rv_imports = [], rv_schemas = [], rv_isEnum = False,
               rv_type = ''object'', rv_isRef = False, rv_schema = None \<rparr>
   \<and> \<not> hasProperties [(''type'', JStr ''string'')]
   \<and> getObject sampleEnv [(''type'', JStr ''string'')] (Some ''pet'') sampleContext
       = Inr \<lparr> rv_value = ''unknown'', rv_imports = [], rv_schemas = [], rv_isEnum = False,
               rv_type = ''object'', rv_isRef = False, rv_schema = None \<rparr>"
proof -
  let ?a = "[(''type'', JStr ''object''), (''properties'', JObj [])]"
  let ?b = "[(''type'', JStr ''string'')]"
  have a1: "\<not> isReference ?a" by (simp add: isReference_def js_get_def)
  have a2: "\<not> truthy (js_get ?a ''allOf'')" by (simp add: js_get_def)
  have a3: "\<not> truthy (js_get ?a ''oneOf'')" by (simp add: js_get_def)
  have a4: "\<not> truthy (js_get ?a ''anyOf'')" by (simp add: js_get_def)
  have a5: "\<not> hasProperties ?a" by (simp add: hasProperties_def js_get_def order_defs)
  have a6: "\<not> truthy (js_get ?a ''additionalProperties'')" by (simp add: js_get_def)
  from fallback_never_fails [OF a1 a2 a3 a4 a5 a6, of sampleEnv None sampleContext]
  have va: "getObject sampleEnv ?a None sampleContext
       = Inr \<lparr> rv_value = ''{}'', rv_imports = [], rv_schemas = [], rv_isEnum = False,
               rv_type = ''object'', rv_isRef = False, rv_schema = None \<rparr>"
    by (simp add: js_get_def)
  have b1: "\<not> isReference ?b" by (simp add: isReference_def js_get_def)
  have b2: "\<not> truthy (js_get ?b ''allOf'')" by (simp add: js_get_def)
  have b3: "\<not> truthy (js_get ?b ''oneOf'')" by (simp add: js_get_def)
  have b4: "\<not> truthy (js_get ?b ''anyOf'')" by (simp add: js_get_def)
  have b5: "\<not> hasProperties ?b" by (simp add: hasProperties_def js_get_def order_defs)
  have b6: "\<not> truthy (js_get ?b ''additionalProperties'')" by (simp add: js_get_def)
  from fallback_never_fails [OF b1 b2 b3 b4 b5 b6, of sampleEnv "Some ''pet''" sampleContext]
  have vb: "getObject sampleEnv ?b (Some ''pet'') sampleContext
       = Inr \<lparr> rv_value = ''unknown'', rv_imports = [], rv_schemas = [], rv_isEnum = False,
               rv_type = ''object'', rv_isRef = False, rv_schema = None \<rparr>"
    by (simp add: js_get_def)
  from a5 va b5 vb show ?thesis by blast
qed

section \<open>The properties branch: markers of the members\<close>

text \<open>
  C7. For an inline object schema with a non-empty properties map, when the three calls
  made for each member return (\<open>resolveObject\<close>, the read of \<open>readOnly\<close>,
  \<open>jsDoc\<close>), \<open>getObject\<close> returns, and in the member declaration of every property the
  key is followed by nothing when \<open>item.required\<close> is an array that holds the key, and
  by the optional marker \<open>?\<close> otherwise. Nothing is asked of \<open>required\<close>: when it is
  absent or is not an array the result is still returned, with the marker on every
  member.
\<close>

theorem optional_marker_iff_not_required:
  assumes "\<not> isReference item"
      and "\<not> truthy (js_get item ''allOf'')"
      and "\<not> truthy (js_get item ''oneOf'')"
      and "\<not> truthy (js_get item ''anyOf'')"
      and "js_get item ''properties'' = JObj kvs"
      and "kvs \<noteq> []"
      and "\<forall>(key, schema) \<in> set kvs.
             resolveObject E schema (memberPropName E name context key) context
               = Inr (resolved key schema)
             \<and> memberReadOnly item schema = Inr (flag schema)
             \<and> jsDoc E schema True = Inr (doc schema)"
  shows "getObject E item name context =
           Inr \<lparr> rv_value =
                   ''{''
                   @ concat (map (\<lambda>(key, schema).
                        [CHR 0x0A] @ ''  ''
                        @ (if doc schema \<noteq> [] then doc schema @ ''  '' else [])
                        @ (if truthy (flag schema) then ''readonly '' else [])
                        @ getKey E key
                        @ (if (\<exists>xs. js_get item ''required'' = JArr xs \<and> JStr key \<in> set xs)
                           then [] else ''?'')
                        @ '': '' @ rv_value (resolved key schema) @ '';'')
                      (ownPropertyOrder kvs))
                   @ [CHR 0x0A] @ ''}'',
                 rv_imports =
                   concat (map (\<lambda>(key, schema). rv_imports (resolved key schema))
                     (ownPropertyOrder kvs)),
                 rv_schemas =
                   concat (map (\<lambda>(key, schema). rv_schemas (resolved key schema))
                     (ownPropertyOrder kvs)),
                 rv_isEnum = False, rv_type = ''object'', rv_isRef = False,
                 rv_schema = Some (JObj []) \<rparr>"
  unfolding getObject_properties_closed_form [OF assms] memberText_def isRequired_iff
  by simp

theorem optional_marker_iff_not_required_witness:
  "js_get petItem ''required'' = JArr [JStr ''id'']
   \<and> getObject sampleEnv petItem (Some ''pet'') sampleContext =
       Inr \<lparr> rv_value =
               ''{'' @ [CHR 0x0A] @ ''  id: number;''
                     @ [CHR 0x0A] @ ''  status?: PetStatusProperty;''
                     @ [CHR 0x0A] @ ''  readonly name?: string;''
                     @ [CHR 0x0A] @ ''}'',
             rv_imports = [], rv_schemas = [''PetStatusProperty''],
             rv_isEnum = False, rv_type = ''object'', rv_isRef = False,
             rv_schema = Some (JObj []) \<rparr>
   \<and> getObject sampleEnv
         [(''required'', JStr ''id''),
          (''properties'', JObj [(''id'', JObj [(''type'', JStr ''number'')])])]
         None sampleContext =
       Inr \<lparr> rv_value = ''{'' @ [CHR 0x0A] @ ''  id?: number;'' @ [CHR 0x0A] @ ''}'',
             rv_imports = [], rv_schemas = [],
             rv_isEnum = False, rv_type = ''object'', rv_isRef = False,
             rv_schema = Some (JObj []) \<rparr>"
proof -
  let ?props = "[(''id'', JObj [(''type'', JStr ''number'')]),
             (''status'', JObj [(''type'', JStr ''object'')]),
             (''name'', JObj [(''type'', JStr ''string''), (''readOnly'', JBool True)])]"
  have r: "js_get petItem ''required'' = JArr [JStr ''id'']" by (simp add: petItem_def js_get_def)
  have h1: "\<not> isReference petItem" by (simp add: isReference_def petItem_def js_get_def)
  have h2: "\<not> truthy (js_get petItem ''allOf'')" by (simp add: petItem_def js_get_def)
  have h3: "\<not> truthy (js_get petItem ''oneOf'')" by (simp add: petItem_def js_get_def)
  have h4: "\<not> truthy (js_get petItem ''anyOf'')" by (simp add: petItem_def js_get_def)
  have h5: "js_get petItem ''properties'' = JObj ?props" by (simp add: petItem_def js_get_def)
  have h6: "?props \<noteq> []" by simp
  have h7: "\<forall>(key, schema) \<in> set ?props.
             resolveObject sampleEnv schema
                 (memberPropName sampleEnv (Some ''pet'') sampleContext key) sampleContext
               = Inr (projr (sampleResolve schema
                        (memberPropName sampleEnv (Some ''pet'') sampleContext key) sampleContext))
             \<and> memberReadOnly petItem schema = Inr (projr (memberReadOnly petItem schema))
             \<and> jsDoc sampleEnv schema True = Inr []"
    by (simp add: sample_defs)
  from optional_marker_iff_not_required [OF h1 h2 h3 h4 h5 h6 h7]
  have a: "getObject sampleEnv petItem (Some ''pet'') sampleContext =
       Inr \<lparr> rv_value =
               ''{'' @ [CHR 0x0A] @ ''  id: number;''
                     @ [CHR 0x0A] @ ''  status?: PetStatusProperty;''
                     @ [CHR 0x0A] @ ''  readonly name?: string;''
                     @ [CHR 0x0A] @ ''}'',
             rv_imports = [], rv_schemas = [''PetStatusProperty''],
             rv_isEnum = False, rv_type = ''object'', rv_isRef = False,
             rv_schema = Some (JObj []) \<rparr>"
    by (simp add: order_defs sample_defs)
  let ?q = "[(''id'', JObj [(''type'', JStr ''number'')])]"
  let ?bad = "[(''required'', JStr ''id''), (''properties'', JObj ?q)]"
  have b1: "\<not> isReference ?bad" by (simp add: isReference_def js_get_def)
  have b2: "\<not> truthy (js_get ?bad ''allOf'')" by (simp add: js_get_def)
  have b3: "\<not> truthy (js_get ?bad ''oneOf'')" by (simp add: js_get_def)
  have b4: "\<not> truthy (js_get ?bad ''anyOf'')" by (simp add: js_get_def)
  have b5: "js_get ?bad ''properties'' = JObj ?q" by (simp add: js_get_def)
  have b6: "?q \<noteq> []" by simp
  have b7: "\<forall>(key, schema) \<in> set ?q.
             resolveObject sampleEnv schema
                 (memberPropName sampleEnv None sampleContext key) sampleContext
               = Inr (projr (sampleResolve schema
                        (memberPropName sampleEnv None sampleContext key) sampleContext))
             \<and> memberReadOnly ?bad schema = Inr (projr (memberReadOnly ?bad schema))
             \<and> jsDoc sampleEnv schema True = Inr []"
    by (simp add: sample_defs)
  from optional_marker_iff_not_required [OF b1 b2 b3 b4 b5 b6 b7]
  have b: "getObject sampleEnv ?bad None sampleContext =
       Inr \<lparr> rv_value = ''{'' @ [CHR 0x0A] @ ''  id?: number;'' @ [CHR 0x0A] @ ''}'',
             rv_imports = [], rv_schemas = [],
             rv_isEnum = False, rv_type = ''object'', rv_isRef = False,
             rv_schema = Some (JObj []) \<rparr>"
    by (simp add: order_defs sample_defs)
  from r a b show ?thesis by blast
qed

text \<open>
  C8. For an inline object schema with a non-empty properties map, when
  \<open>resolveObject\<close> and \<open>jsDoc\<close> return for each member and the read of its
  \<open>readOnly\<close> does not throw, \<open>getObject\<close> returns, and in the member declaration of
  every property the key is preceded by \<open>readonly \<close> exactly when \<open>readOnly\<close> of the
  owning object is truthy or the member schema is an object whose \<open>readOnly\<close> is truthy.
\<close>

theorem readonly_prefix_iff_owner_or_member:
  assumes "\<not> isReference item"
      and "\<not> truthy (js_get item ''allOf'')"
      and "\<not> truthy (js_get item ''oneOf'')"
      and "\<not> truthy (js_get item ''anyOf'')"
      and "js_get item ''properties'' = JObj kvs"
      and "kvs \<noteq> []"
      and members: "\<forall>(key, schema) \<in> set kvs.
             resolveObject E schema (memberPropName E name context key) context
               = Inr (resolved key schema)
             \<and> (truthy (js_get item ''readOnly'') \<or> (schema \<noteq> JNull \<and> schema \<noteq> JUndefined))
             \<and> jsDoc E schema True = Inr (doc schema)"
  shows "getObject E item name context =
           Inr \<lparr> rv_value =
                   ''{''
                   @ concat (map (\<lambda>(key, schema).
                        [CHR 0x0A] @ ''  ''
                        @ (if doc schema \<noteq> [] then doc schema @ ''  '' else [])
                        @ (if truthy (js_get item ''readOnly'')
                              \<or> (\<exists>ms. schema = JObj ms \<and> truthy (js_get ms ''readOnly''))
                           then ''readonly '' else [])
                        @ getKey E key
                        @ (if isRequired item key then [] else ''?'')
                        @ '': '' @ rv_value (resolved key schema) @ '';'')
                      (ownPropertyOrder kvs))
                   @ [CHR 0x0A] @ ''}'',
                 rv_imports =
                   concat (map (\<lambda>(key, schema). rv_imports (resolved key schema))
                     (ownPropertyOrder kvs)),
                 rv_schemas =
                   concat (map (\<lambda>(key, schema). rv_schemas (resolved key schema))
                     (ownPropertyOrder kvs)),
                 rv_isEnum = False, rv_type = ''object'', rv_isRef = False,
                 rv_schema = Some (JObj []) \<rparr>"
proof -
  let ?flag = "\<lambda>schema. projr (memberReadOnly item schema)"
  have ret: "memberReadOnly item schema = Inr (?flag schema)" if "(key, schema) \<in> set kvs"
    for key schema
    using members that by (intro memberReadOnly_returns) auto
  have members': "\<forall>(key, schema) \<in> set kvs.
             resolveObject E schema (memberPropName E name context key) context
               = Inr (resolved key schema)
             \<and> memberReadOnly item schema = Inr (?flag schema)
             \<and> jsDoc E schema True = Inr (doc schema)"
    using members ret by auto
  have prefix: "truthy (?flag schema) =
                  (truthy (js_get item ''readOnly'')
                   \<or> (\<exists>ms. schema = JObj ms \<and> truthy (js_get ms ''readOnly'')))"
    if "(key, schema) \<in> set (ownPropertyOrder kvs)" for key schema
    using that ret [of key schema] memberReadOnly_truthy [of item schema "?flag schema"]
    by (simp add: ownPropertyOrder_set)
  have member_texts: "map (\<lambda>(key, schema).
                  memberText (doc schema) (truthy (?flag schema)) (getKey E key)
                    (isRequired item key) (rv_value (resolved key schema)))
                (ownPropertyOrder kvs)
              = map (\<lambda>(key, schema).
                        [CHR 0x0A] @ ''  ''
                        @ (if doc schema \<noteq> [] then doc schema @ ''  '' else [])
                        @ (if truthy (js_get item ''readOnly'')
                              \<or> (\<exists>ms. schema = JObj ms \<and> truthy (js_get ms ''readOnly''))
                           then ''readonly '' else [])
                        @ getKey E key
                        @ (if isRequired item key then [] else ''?'')
                        @ '': '' @ rv_value (resolved key schema) @ '';'')
                (ownPropertyOrder kvs)"
    by (rule map_cong [OF refl]) (auto simp: memberText_def prefix)
  show ?thesis
    unfolding getObject_properties_closed_form [OF assms(1-6) members'] member_texts ..
qed

theorem readonly_prefix_iff_owner_or_member_witness:
  "getObject sampleEnv petItem (Some ''pet'') sampleContext =
       Inr \<lparr> rv_value =
               ''{'' @ [CHR 0x0A] @ ''  id: number;''
                     @ [CHR 0x0A] @ ''  status?: PetStatusProperty;''
                     @ [CHR 0x0A] @ ''  readonly name?: string;''
                     @ [CHR 0x0A] @ ''}'',
             rv_imports = [], rv_schemas = [''PetStatusProperty''],
             rv_isEnum = False, rv_type = ''object'', rv_isRef = False,
             rv_schema = Some (JObj []) \<rparr>
   \<and> getObject sampleEnv
         [(''readOnly'', JBool True),
          (''properties'', JObj [(''id'', JObj [(''type'', JStr ''number'')]),
                                 (''tag'', JObj [(''type'', JStr ''string''),
                                                 (''readOnly'', JBool False)])])]
         None sampleContext =
       Inr \<lparr> rv_value = ''{'' @ [CHR 0x0A] @ ''  readonly id?: number;''
                               @ [CHR 0x0A] @ ''  readonly tag?: string;'' @ [CHR 0x0A] @ ''}'',
             rv_imports = [], rv_schemas = [],
             rv_isEnum = False, rv_type = ''object'', rv_isRef = False,
             rv_schema = Some (JObj []) \<rparr>"
proof -
  let ?props = "[(''id'', JObj [(''type'', JStr ''number'')]),
             (''status'', JObj [(''type'', JStr ''object'')]),
             (''name'', JObj [(''type'', JStr ''string''), (''readOnly'', JBool True)])]"
  have h1: "\<not> isReference petItem" by (simp add: isReference_def petItem_def js_get_def)
  have h2: "\<not> truthy (js_get petItem ''allOf'')" by (simp add: petItem_def js_get_def)
  have h3: "\<not> truthy (js_get petItem ''oneOf'')" by (simp add: petItem_def js_get_def)
  have h4: "\<not> truthy (js_get petItem ''anyOf'')" by (simp add: petItem_def js_get_def)
  have h5: "js_get petItem ''properties'' = JObj ?props" by (simp add: petItem_def js_get_def)
  have h6: "?props \<noteq> []" by simp
  have h7: "\<forall>(key, schema) \<in> set ?props.
             resolveObject sampleEnv schema
                 (memberPropName sampleEnv (Some ''pet'') sampleContext key) sampleContext
               = Inr (projr (sampleResolve schema
                        (memberPropName sampleEnv (Some ''pet'') sampleContext key) sampleContext))
             \<and> (truthy (js_get petItem ''readOnly'') \<or> (schema \<noteq> JNull \<and> schema \<noteq> JUndefined))
             \<and> jsDoc sampleEnv schema True = Inr []"
    by (simp add: sample_defs)
  from readonly_prefix_iff_owner_or_member [OF h1 h2 h3 h4 h5 h6 h7]
  have a: "getObject sampleEnv petItem (Some ''pet'') sampleContext =
       Inr \<lparr> rv_value =
               ''{'' @ [CHR 0x0A] @ ''  id: number;''
                     @ [CHR 0x0A] @ ''  status?: PetStatusProperty;''
                     @ [CHR 0x0A] @ ''  readonly name?: string;''
                     @ [CHR 0x0A] @ ''}'',
             rv_imports = [], rv_schemas = [''PetStatusProperty''],
             rv_isEnum = False, rv_type = ''object'', rv_isRef = False,
             rv_schema = Some (JObj []) \<rparr>"
    by (simp add: order_defs sample_defs)
  let ?q = "[(''id'', JObj [(''type'', JStr ''number'')]),
             (''tag'', JObj [(''type'', JStr ''string''), (''readOnly'', JBool False)])]"
  let ?owner = "[(''readOnly'', JBool True), (''properties'', JObj ?q)]"
  have b1: "\<not> isReference ?owner" by (simp add: isReference_def js_get_def)
  have b2: "\<not> truthy (js_get ?owner ''allOf'')" by (simp add: js_get_def)
  have b3: "\<not> truthy (js_get ?owner ''oneOf'')" by (simp add: js_get_def)
  have b4: "\<not> truthy (js_get ?owner ''anyOf'')" by (simp add: js_get_def)
  have b5: "js_get ?owner ''properties'' = JObj ?q" by (simp add: js_get_def)
  have b6: "?q \<noteq> []" by simp
  have b7: "\<forall>(key, schema) \<in> set ?q.
             resolveObject sampleEnv schema
                 (memberPropName sampleEnv None sampleContext key) sampleContext
               = Inr (projr (sampleResolve schema
                        (memberPropName sampleEnv None sampleContext key) sampleContext))
             \<and> (truthy (js_get ?owner ''readOnly'') \<or> (schema \<noteq> JNull \<and> schema \<noteq> JUndefined))
             \<and> jsDoc sampleEnv schema True = Inr []"
    by (simp add: sample_defs)
  from readonly_prefix_iff_owner_or_member [OF b1 b2 b3 b4 b5 b6 b7]
  have b: "getObject sampleEnv ?owner None sampleContext =
       Inr \<lparr> rv_value = ''{'' @ [CHR 0x0A] @ ''  readonly id?: number;''
                               @ [CHR 0x0A] @ ''  readonly tag?: string;'' @ [CHR 0x0A] @ ''}'',
             rv_imports = [], rv_schemas = [],
             rv_isEnum = False, rv_type = ''object'', rv_isRef = False,
             rv_schema = Some (JObj []) \<rparr>"
    by (simp add: order_defs sample_defs)
  from a b show ?thesis by blast
qed

section \<open>Determinism\<close>

text \<open>
  C9. Two resolutions of the same node with the same name hint and the same context give
  the same result, hence the same value, the same imports in the same order and the same
  schemas in the same order. The two resolutions are given environments of their own,
  \<open>E1\<close> and \<open>E2\<close>: it is enough that the imported functions answer alike on the calls
  \<open>getObject\<close> makes for this node; nothing else enters the result.
\<close>

theorem getObject_deterministic:
  assumes "pascal E1 = pascal E2" and "getKey E1 = getKey E2"
      and "getRefInfo E1 (js_get item ''$ref'') context
             = getRefInfo E2 (js_get item ''$ref'') context"
      and "\<forall>items sep. combineSchemas E1 items name sep context
             = combineSchemas E2 items name sep context"
      and "resolveValue E1 (js_get item ''additionalProperties'') name context
             = resolveValue E2 (js_get item ''additionalProperties'') name context"
      and "\<forall>entries key schema.
             Object_entries (js_get item ''properties'') = Inr entries
             \<and> (key, schema) \<in> set entries \<longrightarrow>
               resolveObject E1 schema (memberPropName E1 name context key) context
                 = resolveObject E2 schema (memberPropName E1 name context key) context
               \<and> jsDoc E1 schema True = jsDoc E2 schema True"
  shows "getObject E1 item name context = getObject E2 item name context
       \<and> (\<forall>r1 r2. getObject E1 item name context = Inr r1
              \<and> getObject E2 item name context = Inr r2 \<longrightarrow>
              rv_value r1 = rv_value r2 \<and> rv_imports r1 = rv_imports r2
              \<and> rv_schemas r1 = rv_schemas r2)"
proof -
  have fold: "asyncReduce entries (propertyStep E1 item name context) initialValue
                = asyncReduce entries (propertyStep E2 item name context) initialValue"
    if "Object_entries (js_get item ''properties'') = Inr entries" for entries
    unfolding asyncReduce_def
  proof (rule asyncReduce_from_cong)
    fix x :: "string \<times> js_value" and a :: "'a resolver_value" and i
    assume xin: "x \<in> set entries"
    obtain key schema where x: "x = (key, schema)" by (cases x)
    from xin x have mem: "(key, schema) \<in> set entries" by simp
    from assms(6) that mem
    have "resolveObject E1 schema (memberPropName E1 name context key) context
            = resolveObject E2 schema (memberPropName E1 name context key) context"
      and "jsDoc E1 schema True = jsDoc E2 schema True"
      by blast+
    then show "propertyStep E1 item name context a x i entries
                 = propertyStep E2 item name context a x i entries"
      unfolding x using assms(1,2) by (rule propertyStep_cong [rotated 2])
  qed
  have same: "getObject E1 item name context = getObject E2 item name context"
    using assms(3,4,5) fold
    by (simp add: getObject_def split: sum.splits)
  then show ?thesis by auto
qed

theorem getObject_deterministic_witness:
  "getObject sampleEnv petItem (Some ''pet'') sampleContext
     = getObject
         (sampleEnv \<lparr> jsDoc := \<lambda>schema tryOneLine. if tryOneLine then Inr [] else Inl TypeError \<rparr>)
         petItem (Some ''pet'') sampleContext
   \<and> jsDoc sampleEnv JNull False
       \<noteq> jsDoc (sampleEnv \<lparr> jsDoc := \<lambda>schema tryOneLine. if tryOneLine then Inr [] else Inl TypeError \<rparr>)
           JNull False"
proof -
  let ?E2 = "sampleEnv \<lparr> jsDoc := \<lambda>schema tryOneLine. if tryOneLine then Inr [] else Inl TypeError \<rparr>"
  have h1: "pascal sampleEnv = pascal ?E2" by simp
  have h2: "getKey sampleEnv = getKey ?E2" by simp
  have h3: "getRefInfo sampleEnv (js_get petItem ''$ref'') sampleContext
              = getRefInfo ?E2 (js_get petItem ''$ref'') sampleContext" by simp
  have h4: "\<forall>items sep. combineSchemas sampleEnv items (Some ''pet'') sep sampleContext
              = combineSchemas ?E2 items (Some ''pet'') sep sampleContext" by simp
  have h5: "resolveValue sampleEnv (js_get petItem ''additionalProperties'') (Some ''pet'')
                sampleContext
              = resolveValue ?E2 (js_get petItem ''additionalProperties'') (Some ''pet'')
                  sampleContext" by simp
  have h6: "\<forall>entries key schema.
             Object_entries (js_get petItem ''properties'') = Inr entries
             \<and> (key, schema) \<in> set entries \<longrightarrow>
               resolveObject sampleEnv schema
                   (memberPropName sampleEnv (Some ''pet'') sampleContext key) sampleContext
                 = resolveObject ?E2 schema
                     (memberPropName sampleEnv (Some ''pet'') sampleContext key) sampleContext
               \<and> jsDoc sampleEnv schema True = jsDoc ?E2 schema True"
    by (simp add: sampleEnv_def)
  from getObject_deterministic [OF h1 h2 h3 h4 h5 h6]
  have "getObject sampleEnv petItem (Some ''pet'') sampleContext
          = getObject ?E2 petItem (Some ''pet'') sampleContext"
    by blast
  moreover have "jsDoc sampleEnv JNull False \<noteq> jsDoc ?E2 JNull False"
    by (simp add: sampleEnv_def)
  ultimately show ?thesis by blast
qed

end
